theory Spec2Isabelle
  imports Main "HOL-Library.Sublist"
begin

section \<open>Python string primitives used by the build automation\<close>

text \<open>
  A Python \<open>str\<close> is modelled as a \<open>string\<close>; one \<open>char\<close> stands for one code point
  below 256. The functions below follow the behaviour of the built-in methods on such
  strings.
\<close>

definition py_isspace :: "char \<Rightarrow> bool" where
  \<comment> \<open>\<open>str.isspace\<close> on one code point: TAB..CR, FS..US, SPACE, NEL, NBSP.\<close>
  "py_isspace c =
     (let n = (of_char c :: nat)
      in (9 \<le> n \<and> n \<le> 13) \<or> (28 \<le> n \<and> n \<le> 32) \<or> n = 133 \<or> n = 160)"

definition py_strip :: "string \<Rightarrow> string" where
  \<comment> \<open>\<open>s.strip()\<close>\<close>
  "py_strip s = rev (dropWhile py_isspace (rev (dropWhile py_isspace s)))"

definition lower_char :: "char \<Rightarrow> char" where
  \<comment> \<open>an upper-case letter (A..Z, and 192..222 but 215) moves up by 32: its bit of value
      32 is clear, and is set\<close>
  "lower_char c =
     (let n = (of_char c :: nat)
      in if (65 \<le> n \<and> n \<le> 90) \<or> (192 \<le> n \<and> n \<le> 222 \<and> n \<noteq> 215)
         then (case c of Char b0 b1 b2 b3 b4 b5 b6 b7 \<Rightarrow> Char b0 b1 b2 b3 b4 True b6 b7)
         else c)"

definition py_lower :: "string \<Rightarrow> string" where
  \<comment> \<open>\<open>s.lower()\<close>\<close>
  "py_lower s = map lower_char s"

fun py_in :: "string \<Rightarrow> string \<Rightarrow> bool" where
  \<comment> \<open>\<open>sub in s\<close>\<close>
  "py_in sub [] = (sub = [])"
| "py_in sub (c # cs) = (prefix sub (c # cs) \<or> py_in sub cs)"

function py_split :: "string \<Rightarrow> string \<Rightarrow> string list" where
  \<comment> \<open>\<open>s.split(sep)\<close> for a non-empty separator (the empty one is a ValueError in
      Python; every call in the source passes a non-empty literal)\<close>
  "py_split sep s =
     (if sep = [] then [s]
      else if s = [] then [[]]
      else if prefix sep s then [] # py_split sep (drop (length sep) s)
      else (case py_split sep (tl s) of
              [] \<Rightarrow> [[hd s]]
            | p # ps \<Rightarrow> (hd s # p) # ps))"
  by pat_completeness auto
termination
  by (relation "measure (\<lambda>(sep, s). length s)") auto

function py_replace :: "string \<Rightarrow> string \<Rightarrow> string \<Rightarrow> string" where
  \<comment> \<open>\<open>s.replace(old, new)\<close> for a non-empty \<open>old\<close>: occurrences are replaced from
      left to right and do not overlap\<close>
  "py_replace old new s =
     (if old = [] \<or> s = [] then s
      else if prefix old s then new @ py_replace old new (drop (length old) s)
      else hd s # py_replace old new (tl s))"
  by pat_completeness auto
termination
  by (relation "measure (\<lambda>(old, new, s). length s)") auto

text \<open>
  Both equations above unfold for ever on a string that is not a literal, so they leave
  the simplifier's default rules and are named where a concrete string is evaluated.
\<close>

declare py_split.simps [simp del]

declare py_replace.simps [simp del]

definition py_linebreak :: "char \<Rightarrow> bool" where
  \<comment> \<open>the line boundaries of \<open>str.splitlines\<close> below 256: LF, VT, FF, CR, FS, GS, RS, NEL\<close>
  "py_linebreak c =
     (let n = (of_char c :: nat)
      in (10 \<le> n \<and> n \<le> 13) \<or> (28 \<le> n \<and> n \<le> 30) \<or> n = 133)"

fun py_splitlines :: "string \<Rightarrow> string list" where
  \<comment> \<open>\<open>s.splitlines()\<close>: CR LF is one boundary, no empty last line\<close>
  "py_splitlines [] = []"
| "py_splitlines [c] = (if py_linebreak c then [[]] else [[c]])"
| "py_splitlines (c # d # cs) =
     (if c = CHR 0x0D \<and> d = CHR 0x0A then [] # py_splitlines cs
      else if py_linebreak c then [] # py_splitlines (d # cs)
      else (case py_splitlines (d # cs) of
              [] \<Rightarrow> [[c]]
            | l # ls \<Rightarrow> (c # l) # ls))"

fun file_lines :: "string \<Rightarrow> string list" where
  \<comment> \<open>\<open>for line in f\<close> on a text file: each line keeps its terminating newline\<close>
  "file_lines [] = []"
| "file_lines (c # cs) =
     (if c = CHR 0x0A then [c] # file_lines cs
      else (case file_lines cs of
              [] \<Rightarrow> [[c]]
            | l # ls \<Rightarrow> (c # l) # ls))"

fun py_split_ws :: "string \<Rightarrow> string list" where
  \<comment> \<open>\<open>s.split()\<close>: the maximal runs of non-whitespace\<close>
  "py_split_ws [] = []"
| "py_split_ws [c] = (if py_isspace c then [] else [[c]])"
| "py_split_ws (c # d # cs) =
     (if py_isspace c then py_split_ws (d # cs)
      else if py_isspace d then [c] # py_split_ws (d # cs)
      else (case py_split_ws (d # cs) of
              [] \<Rightarrow> [[c]]
            | w # ws \<Rightarrow> (c # w) # ws))"

definition path_join :: "string \<Rightarrow> string \<Rightarrow> string" where
  \<comment> \<open>\<open>os.path.join(a, b)\<close> for a relative \<open>b\<close>\<close>
  "path_join a b = (if a = [] \<or> last a = CHR ''/'' then a @ b else a @ ''/'' @ b)"

fun fnmatch :: "string \<Rightarrow> string \<Rightarrow> bool" where
  \<comment> \<open>\<open>fnmatch pattern name\<close>: \<open>*\<close> matches any run of characters, \<open>?\<close> one character\<close>
  "fnmatch [] s = (s = [])"
| "fnmatch (p # ps) [] = (p = CHR ''*'' \<and> fnmatch ps [])"
| "fnmatch (p # ps) (c # cs) =
     (if p = CHR ''*'' then fnmatch ps (c # cs) \<or> fnmatch (p # ps) cs
      else if p = CHR ''?'' then fnmatch ps cs
      else p = c \<and> fnmatch ps cs)"

section \<open>The repository checkout\<close>

text \<open>
  The checkout under \<open>repo_path\<close> is a tree: a file with its text (\<open>None\<close> when it cannot
  be opened or decoded), or a directory with its entries in listing order.
\<close>

datatype node = File "string option" | Dir "(string \<times> node) list"

fun entries :: "node \<Rightarrow> (string \<times> node) list" where
  "entries (File _) = []"
| "entries (Dir es) = es"

definition path_exists :: "node \<Rightarrow> string \<Rightarrow> bool" where
  \<comment> \<open>\<open>os.path.exists(os.path.join(repo_path, name))\<close>\<close>
  "path_exists root name = (map_of (entries root) name \<noteq> None)"

fun rglob_count :: "string \<Rightarrow> node \<Rightarrow> nat"
  and rglob_entries :: "string \<Rightarrow> (string \<times> node) list \<Rightarrow> nat" where
  \<comment> \<open>\<open>len(list(Path(repo_path).rglob(pattern)))\<close>: every entry below the root, file or
      directory, whose name matches\<close>
  "rglob_count pat (File _) = 0"
| "rglob_count pat (Dir es) = rglob_entries pat es"
| "rglob_entries pat [] = 0"
| "rglob_entries pat ((name, child) # es) =
     (if fnmatch pat name then 1 else 0) + rglob_count pat child + rglob_entries pat es"


section \<open>Results, exceptions and the outside world\<close>

datatype exn =
    CalledProcessError "string list" int
  | OSError
  | TypeError
  | AttributeError
  | ValueError
  | IndexError
  | ParseError
  | BuildError string "exn option"

text \<open>
  \<open>BuildError msg cause\<close> stands for \<open>BuildError(f"msg{cause}")\<close>: the literal part of the
  message and the exception interpolated after it, if any. Every constructor is a subclass
  of Python's \<open>Exception\<close>.
\<close>

datatype 'a res = Returned 'a | Raised exn

text \<open>A parsed JSON or TOML value: a string, a table, or anything else with its \<open>str()\<close> text.\<close>

datatype pyval = VStr string | VDict "(string \<times> pyval) list" | VOther string

datatype proc = Exited int | SpawnFailed

text \<open>
  What the code takes from outside the repository: the process host (given the number of
  processes run so far, the argument vector and the checkout, it gives the exit status and
  the checkout as the process left it), the two parser libraries (\<open>None\<close> when they raise),
  the \<open>repr\<close> of a table, and whether \<open>shutil.rmtree\<close> fails on a directory.
\<close>

record runtime =
  host :: "nat \<Rightarrow> string list \<Rightarrow> node \<Rightarrow> proc \<times> node"
  json_load :: "string \<Rightarrow> pyval option"
  toml_load :: "string \<Rightarrow> (string \<times> pyval) list option"
  repr_dict :: "(string \<times> pyval) list \<Rightarrow> string"
  rmtree_fails :: "string \<Rightarrow> bool"

definition catch_all :: "'a res \<Rightarrow> 'a \<Rightarrow> 'a res" where
  \<comment> \<open>\<open>try: ... except Exception: return d\<close>\<close>
  "catch_all r d = (case r of Returned v \<Rightarrow> Returned v | Raised e \<Rightarrow> Returned d)"

definition reraise :: "string \<Rightarrow> 'a res \<Rightarrow> 'a res" where
  \<comment> \<open>\<open>try: ... except Exception as e: raise BuildError(f"msg{e}")\<close>\<close>
  "reraise msg r = (case r of Returned v \<Rightarrow> Returned v | Raised e \<Rightarrow> Raised (BuildError msg (Some e)))"

definition read_text :: "node \<Rightarrow> string \<Rightarrow> string res" where
  \<comment> \<open>\<open>with open(os.path.join(repo_path, name)) as f: f.read()\<close>\<close>
  "read_text root name =
     (case map_of (entries root) name of
        Some (File (Some text)) \<Rightarrow> Returned text
      | _ \<Rightarrow> Raised OSError)"

definition py_index :: "'a list \<Rightarrow> nat \<Rightarrow> 'a res" where
  \<comment> \<open>\<open>xs[i]\<close> for \<open>i \<ge> 0\<close>\<close>
  "py_index xs i = (if i < length xs then Returned (xs ! i) else Raised IndexError)"

definition dict_get :: "pyval \<Rightarrow> string \<Rightarrow> pyval \<Rightarrow> pyval res" where
  \<comment> \<open>\<open>v.get(key, default)\<close>\<close>
  "dict_get v key dflt =
     (case v of
        VDict kvs \<Rightarrow> Returned (case map_of kvs key of Some x \<Rightarrow> x | None \<Rightarrow> dflt)
      | _ \<Rightarrow> Raised AttributeError)"

definition dict_items :: "pyval \<Rightarrow> (string \<times> pyval) list res" where
  \<comment> \<open>\<open>v.items()\<close>\<close>
  "dict_items v = (case v of VDict kvs \<Rightarrow> Returned kvs | _ \<Rightarrow> Raised AttributeError)"

definition fstr :: "runtime \<Rightarrow> pyval \<Rightarrow> string" where
  \<comment> \<open>\<open>f"{v}"\<close>\<close>
  "fstr rt v = (case v of VStr s \<Rightarrow> s | VOther s \<Rightarrow> s | VDict kvs \<Rightarrow> repr_dict rt kvs)"

section \<open>Language and build-system detection\<close>

definition language_patterns :: "(string \<times> string list) list" where
  "language_patterns =
     [(''python'', [''*.py'', ''requirements.txt'', ''setup.py'', ''pyproject.toml'']),
      (''javascript'', [''*.js'', ''package.json'']),
      (''typescript'', [''*.ts'', ''tsconfig.json'']),
      (''java'', [''*.java'', ''pom.xml'', ''build.gradle'']),
      (''go'', [''*.go'', ''go.mod'']),
      (''rust'', [''*.rs'', ''Cargo.toml''])]"

fun count_patterns :: "node \<Rightarrow> string list \<Rightarrow> nat" where
  \<comment> \<open>the inner loop: \<open>count += len(list(Path(repo_path).rglob(pattern)))\<close>\<close>
  "count_patterns root [] = 0"
| "count_patterns root (pat # pats) = rglob_count pat root + count_patterns root pats"

definition language_counts :: "node \<Rightarrow> (string \<times> nat) list" where
  \<comment> \<open>the dictionary \<open>counts\<close>, in insertion order\<close>
  "language_counts root = map (\<lambda>(lang, pats). (lang, count_patterns root pats)) language_patterns"

fun py_max :: "('a \<times> nat) \<Rightarrow> ('a \<times> nat) list \<Rightarrow> ('a \<times> nat)" where
  \<comment> \<open>\<open>max(items, key=lambda x: x[1])\<close> with the best item so far: a later item replaces
      it only when its key is strictly greater\<close>
  "py_max best [] = best"
| "py_max best (x # xs) = py_max (if snd best < snd x then x else best) xs"

definition detect_primary_language :: "node \<Rightarrow> string res" where
  "detect_primary_language root =
     (case language_counts root of
        [] \<Rightarrow> Raised ValueError
      | x # xs \<Rightarrow> Returned (fst (py_max x xs)))"


definition build_systems :: "(string \<times> (string \<times> string) list) list" where
  "build_systems =
     [(''python'', [(''setup.py'', ''setuptools''), (''pyproject.toml'', ''poetry''),
                    (''requirements.txt'', ''pip'')]),
      (''javascript'', [(''package.json'', ''npm''), (''yarn.lock'', ''yarn'')]),
      (''java'', [(''pom.xml'', ''maven''), (''build.gradle'', ''gradle'')]),
      (''go'', [(''go.mod'', ''go'')]),
      (''rust'', [(''Cargo.toml'', ''cargo'')])]"

fun first_marker :: "node \<Rightarrow> (string \<times> string) list \<Rightarrow> string option" where
  \<comment> \<open>the loop over \<open>build_systems[language].items()\<close>, returning at the first file present\<close>
  "first_marker root [] = None"
| "first_marker root ((file, system) # rest) =
     (if path_exists root file then Some system else first_marker root rest)"

definition detect_build_system :: "node \<Rightarrow> string \<Rightarrow> string" where
  "detect_build_system root language =
     (case map_of build_systems language of
        Some markers \<Rightarrow> (case first_marker root markers of Some system \<Rightarrow> system | None \<Rightarrow> ''unknown'')
      | None \<Rightarrow> ''unknown'')"

section \<open>Dependency analysis\<close>

definition python_dependencies :: "node \<Rightarrow> string list res" where
  \<comment> \<open>the \<open>try\<close> block of \<open>_analyze_python_dependencies\<close>\<close>
  "python_dependencies root =
     (case (if path_exists root ''requirements.txt''
            then (case read_text root ''requirements.txt'' of
                    Raised e \<Rightarrow> Raised e
                  | Returned text \<Rightarrow>
                      Returned (filter (\<lambda>l. l \<noteq> []) (map py_strip (file_lines text))))
            else Returned []) of
        Raised e \<Rightarrow> Raised e
      | Returned dependencies \<Rightarrow>
          (if path_exists root ''setup.py''
           then (case read_text root ''setup.py'' of
                   Raised e \<Rightarrow> Raised e
                 | Returned content \<Rightarrow>
                     (if py_in ''install_requires'' content then Returned dependencies
                      else Returned dependencies))
           else Returned dependencies))"

definition analyze_python_dependencies :: "runtime \<Rightarrow> node \<Rightarrow> string list option res" where
  "analyze_python_dependencies rt root =
     (case catch_all (python_dependencies root) [] of
        Returned ds \<Rightarrow> Returned (Some ds) | Raised e \<Rightarrow> Raised e)"

definition at_version :: "runtime \<Rightarrow> (string \<times> pyval) list \<Rightarrow> string list" where
  \<comment> \<open>the f-string of name, an at sign and version, for each item of \<open>d.items()\<close>\<close>
  "at_version rt kvs = map (\<lambda>(name, version). name @ ''@'' @ fstr rt version) kvs"

definition javascript_dependencies :: "runtime \<Rightarrow> node \<Rightarrow> string list res" where
  \<comment> \<open>the \<open>try\<close> block of \<open>_analyze_javascript_dependencies\<close>\<close>
  "javascript_dependencies rt root =
     (if path_exists root ''package.json''
      then (case read_text root ''package.json'' of
              Raised e \<Rightarrow> Raised e
            | Returned text \<Rightarrow>
               (case json_load rt text of
                  None \<Rightarrow> Raised ParseError
                | Some data \<Rightarrow>
                   (case dict_get data ''dependencies'' (VDict []) of
                      Raised e \<Rightarrow> Raised e
                    | Returned deps \<Rightarrow>
                       (case dict_get data ''devDependencies'' (VDict []) of
                          Raised e \<Rightarrow> Raised e
                        | Returned dev_deps \<Rightarrow>
                           (case dict_items deps of
                              Raised e \<Rightarrow> Raised e
                            | Returned ds \<Rightarrow>
                               (case dict_items dev_deps of
                                  Raised e \<Rightarrow> Raised e
                                | Returned dds \<Rightarrow>
                                    Returned (at_version rt ds @ at_version rt dds)))))))
      else Returned [])"

definition analyze_javascript_dependencies :: "runtime \<Rightarrow> node \<Rightarrow> string list option res" where
  "analyze_javascript_dependencies rt root =
     (case catch_all (javascript_dependencies rt root) [] of
        Returned ds \<Rightarrow> Returned (Some ds) | Raised e \<Rightarrow> Raised e)"

definition go_dependencies :: "node \<Rightarrow> string list res" where
  \<comment> \<open>the \<open>try\<close> block of \<open>_analyze_go_dependencies\<close>\<close>
  "go_dependencies root =
     (if path_exists root ''go.mod''
      then (case read_text root ''go.mod'' of
              Raised e \<Rightarrow> Raised e
            | Returned content \<Rightarrow>
               (if py_in ''require ('' content
                then (case py_index (py_split ''require ('' content) 1 of
                        Raised e \<Rightarrow> Raised e
                      | Returned rest \<Rightarrow>
                         (case py_index (py_split '')'' rest) 0 of
                            Raised e \<Rightarrow> Raised e
                          | Returned require_block \<Rightarrow>
                              Returned (filter (\<lambda>l. l \<noteq> [])
                                         (map py_strip (py_splitlines require_block)))))
                else Returned []))
      else Returned [])"

definition analyze_go_dependencies :: "runtime \<Rightarrow> node \<Rightarrow> string list option res" where
  "analyze_go_dependencies rt root =
     (case catch_all (go_dependencies root) [] of
        Returned ds \<Rightarrow> Returned (Some ds) | Raised e \<Rightarrow> Raised e)"

fun rust_entry :: "runtime \<Rightarrow> string \<times> pyval \<Rightarrow> string list" where
  \<comment> \<open>one round of the loop over \<open>cargo_data['dependencies'].items()\<close>\<close>
  "rust_entry rt (name, VStr version) = [name @ '' = '' @ version]"
| "rust_entry rt (name, VDict version) =
     [name @ '' = '' @ fstr rt (case map_of version ''version'' of Some v \<Rightarrow> v | None \<Rightarrow> VStr ''*'')]"
| "rust_entry rt (name, VOther _) = []"

definition rust_dependencies :: "runtime \<Rightarrow> node \<Rightarrow> string list res" where
  \<comment> \<open>the \<open>try\<close> block of \<open>_analyze_rust_dependencies\<close>\<close>
  "rust_dependencies rt root =
     (if path_exists root ''Cargo.toml''
      then (case read_text root ''Cargo.toml'' of
              Raised e \<Rightarrow> Raised e
            | Returned text \<Rightarrow>
               (case toml_load rt text of
                  None \<Rightarrow> Raised ParseError
                | Some cargo_data \<Rightarrow>
                   (case map_of cargo_data ''dependencies'' of
                      None \<Rightarrow> Returned []
                    | Some table \<Rightarrow>
                       (case dict_items table of
                          Raised e \<Rightarrow> Raised e
                        | Returned kvs \<Rightarrow> Returned (concat (map (rust_entry rt) kvs))))))
      else Returned [])"

definition analyze_rust_dependencies :: "runtime \<Rightarrow> node \<Rightarrow> string list option res" where
  "analyze_rust_dependencies rt root =
     (case catch_all (rust_dependencies rt root) [] of
        Returned ds \<Rightarrow> Returned (Some ds) | Raised e \<Rightarrow> Raised e)"

definition analyze_java_dependencies :: "runtime \<Rightarrow> node \<Rightarrow> string list option res" where
  \<comment> \<open>the body is \<open>pass\<close>: the call returns Python's \<open>None\<close>\<close>
  "analyze_java_dependencies rt root = Returned None"

definition analyzers :: "(string \<times> (runtime \<Rightarrow> node \<Rightarrow> string list option res)) list" where
  "analyzers =
     [(''python'', analyze_python_dependencies),
      (''javascript'', analyze_javascript_dependencies),
      (''java'', analyze_java_dependencies),
      (''go'', analyze_go_dependencies),
      (''rust'', analyze_rust_dependencies)]"

definition analyze_dependencies :: "runtime \<Rightarrow> node \<Rightarrow> string \<Rightarrow> string list option res" where
  "analyze_dependencies rt root language =
     (case map_of analyzers language of
        Some analyzer \<Rightarrow> analyzer rt root
      | None \<Rightarrow> Returned (Some []))"

section \<open>Build instructions\<close>

text \<open>The list fields may hold Python's \<open>None\<close>: the planner functions of the source are \<open>pass\<close>.\<close>

record BuildInstructions =
  language :: string
  build_system :: string
  dependencies :: "string list option"
  setup_steps :: "string list option"
  build_commands :: "string list option"
  test_commands :: "string list option"





definition relax :: "string list option \<Rightarrow> string list res" where
  \<comment> \<open>\<open>[d.replace('==', '>=') for d in dependencies]\<close>; iterating \<open>None\<close> is a TypeError\<close>
  "relax deps =
     (case deps of
        None \<Rightarrow> Raised TypeError
      | Some ds \<Rightarrow> Returned (map (py_replace ''=='' ''>='') ds))"

definition retry_commands :: "string \<Rightarrow> string list" where
  "retry_commands lang =
     (if lang = ''python''
      then [''pip install --upgrade pip'', ''pip install -r requirements.txt --upgrade'']
      else if lang \<in> set [''javascript'', ''typescript'']
      then [''npm cache clean --force'', ''npm install --no-package-lock'']
      else [])"

definition modify_build_instructions :: "runtime \<Rightarrow> node \<Rightarrow> BuildInstructions res" where
  "modify_build_instructions rt root =
     reraise ''Could not modify build instructions: ''
       (case detect_primary_language root of
          Raised e \<Rightarrow> Raised e
        | Returned lang \<Rightarrow>
           (let system = detect_build_system root lang
            in case analyze_dependencies rt root lang of
                 Raised e \<Rightarrow> Raised e
               | Returned deps \<Rightarrow>
                  (case relax deps of
                     Raised e \<Rightarrow> Raised e
                   | Returned relaxed \<Rightarrow>
                       Returned \<lparr>language = lang, build_system = system,
                                 dependencies = Some relaxed,
                                 setup_steps = Some [''Clean build artifacts'',
                                                     ''Update package manager'',
                                                     ''Install dependencies with relaxed constraints''],
                                 build_commands = Some (retry_commands lang),
                                 test_commands = Some []\<rparr>)))"

section \<open>Build execution\<close>

text \<open>
  The state of one run: the checkout, and the trace of what the run did to the outside
  world (each \<open>subprocess.run\<close> call with its arguments and working directory, each
  directory removed) together with two markers, one per dispatch of a build handler and one
  per entry into the failure handling.
\<close>

datatype event =
    Run "string list" "string option"
  | Removed string
  | Dispatch string
  | Recover

record state =
  tree :: node
  events :: "event list"

fun is_run :: "event \<Rightarrow> bool" where
  "is_run (Run _ _) = True"
| "is_run _ = False"

definition subprocess_run :: "runtime \<Rightarrow> string list \<Rightarrow> string option \<Rightarrow> state \<Rightarrow> unit res \<times> state" where
  \<comment> \<open>\<open>subprocess.run(argv, cwd=cwd, check=True)\<close>\<close>
  "subprocess_run rt argv cwd st =
     (if argv = [] then (Raised IndexError, st)
      else
        (let st' = st\<lparr>events := events st @ [Run argv cwd]\<rparr>
         in case host rt (length (filter is_run (events st))) argv (tree st) of
              (SpawnFailed, _) \<Rightarrow> (Raised OSError, st')
            | (Exited code, tree') \<Rightarrow>
                (if code = 0 then (Returned (), st'\<lparr>tree := tree'\<rparr>)
                 else (Raised (CalledProcessError argv code), st'\<lparr>tree := tree'\<rparr>))))"

definition remove_entry :: "string \<Rightarrow> node \<Rightarrow> node" where
  "remove_entry name root =
     (case root of File t \<Rightarrow> File t | Dir es \<Rightarrow> Dir (filter (\<lambda>(n, _). n \<noteq> name) es))"

definition rmtree :: "runtime \<Rightarrow> string \<Rightarrow> state \<Rightarrow> unit res \<times> state" where
  \<comment> \<open>\<open>shutil.rmtree(os.path.join(repo_path, name))\<close>: it raises on a regular file, and
      where the runtime says so; otherwise the directory is gone\<close>
  "rmtree rt name st =
     (case map_of (entries (tree st)) name of
        Some (Dir _) \<Rightarrow>
          (if rmtree_fails rt name then (Raised OSError, st)
           else (Returned (), st\<lparr>tree := remove_entry name (tree st),
                                 events := events st @ [Removed name]\<rparr>))
      | _ \<Rightarrow> (Raised OSError, st))"

definition build_dirs :: "string list" where
  "build_dirs = [''build'', ''dist'', ''target'', ''node_modules'', ''__pycache__'']"

fun clean_dirs :: "runtime \<Rightarrow> string list \<Rightarrow> state \<Rightarrow> unit res \<times> state" where
  \<comment> \<open>the loop of \<open>_clean_build_artifacts\<close>\<close>
  "clean_dirs rt [] st = (Returned (), st)"
| "clean_dirs rt (dir_name # rest) st =
     (if path_exists (tree st) dir_name
      then (case rmtree rt dir_name st of
              (Raised e, st') \<Rightarrow> (Raised e, st')
            | (Returned _, st') \<Rightarrow> clean_dirs rt rest st')
      else clean_dirs rt rest st)"

definition clean_build_artifacts :: "runtime \<Rightarrow> state \<Rightarrow> state" where
  \<comment> \<open>the exception of a failed removal is logged and dropped\<close>
  "clean_build_artifacts rt st = snd (clean_dirs rt build_dirs st)"

definition setup_environment :: "runtime \<Rightarrow> string \<Rightarrow> BuildInstructions \<Rightarrow> state \<Rightarrow> unit res \<times> state" where
  "setup_environment rt repo_path instructions st =
     (case (if py_lower (language instructions) = ''python''
            then (if \<not> path_exists (tree st) ''.venv''
                  then subprocess_run rt [''python'', ''-m'', ''venv'', path_join repo_path ''.venv''] None st
                  else (Returned (), st))
            else if py_lower (language instructions) \<in> set [''javascript'', ''typescript'']
            then (if \<not> path_exists (tree st) ''node_modules''
                  then subprocess_run rt [''npm'', ''install''] (Some repo_path) st
                  else (Returned (), st))
            else (Returned (), st)) of
        (r, st') \<Rightarrow> (reraise ''Failed to setup environment: '' r, st'))"

fun run_commands :: "runtime \<Rightarrow> (string \<Rightarrow> string list) \<Rightarrow> string option \<Rightarrow> string list \<Rightarrow> state \<Rightarrow> unit res \<times> state" where
  \<comment> \<open>\<open>for cmd in instructions.build_commands: subprocess.run(argv(cmd), cwd=cwd, check=True)\<close>\<close>
  "run_commands rt argv cwd [] st = (Returned (), st)"
| "run_commands rt argv cwd (cmd # cmds) st =
     (case subprocess_run rt (argv cmd) cwd st of
        (Raised e, st') \<Rightarrow> (Raised e, st')
      | (Returned _, st') \<Rightarrow> run_commands rt argv cwd cmds st')"

definition run_build_commands :: "runtime \<Rightarrow> (string \<Rightarrow> string list) \<Rightarrow> string option \<Rightarrow> string list option \<Rightarrow> state \<Rightarrow> unit res \<times> state" where
  \<comment> \<open>iterating \<open>None\<close> is a TypeError\<close>
  "run_build_commands rt argv cwd cmds st =
     (case cmds of None \<Rightarrow> (Raised TypeError, st) | Some cs \<Rightarrow> run_commands rt argv cwd cs st)"

definition build_result :: "unit res \<times> state \<Rightarrow> bool option res \<times> state" where
  \<comment> \<open>\<open>try: ...; return True\<close> \<open>except subprocess.CalledProcessError: return False\<close>\<close>
  "build_result r =
     (case r of
        (Returned _, st) \<Rightarrow> (Returned (Some True), st)
      | (Raised (CalledProcessError argv code), st) \<Rightarrow> (Returned (Some False), st)
      | (Raised e, st) \<Rightarrow> (Raised e, st))"

definition handle_python_build :: "runtime \<Rightarrow> string \<Rightarrow> BuildInstructions \<Rightarrow> state \<Rightarrow> bool option res \<times> state" where
  "handle_python_build rt repo_path instructions st =
     build_result
       (let venv_path = path_join repo_path ''.venv''
        in case subprocess_run rt [''python'', ''-m'', ''venv'', venv_path] None st of
             (Raised e, st') \<Rightarrow> (Raised e, st')
           | (Returned _, st') \<Rightarrow>
               (let pip = path_join (path_join venv_path ''bin'') ''pip''
                in run_build_commands rt (\<lambda>cmd. pip # py_split_ws cmd) None
                     (build_commands instructions) st'))"

definition handle_javascript_build :: "runtime \<Rightarrow> string \<Rightarrow> BuildInstructions \<Rightarrow> state \<Rightarrow> bool option res \<times> state" where
  "handle_javascript_build rt repo_path instructions st =
     build_result
       (case subprocess_run rt [''npm'', ''install''] (Some repo_path) st of
          (Raised e, st') \<Rightarrow> (Raised e, st')
        | (Returned _, st') \<Rightarrow>
            run_build_commands rt py_split_ws (Some repo_path) (build_commands instructions) st')"

definition handle_java_build :: "runtime \<Rightarrow> string \<Rightarrow> BuildInstructions \<Rightarrow> state \<Rightarrow> bool option res \<times> state" where
  \<comment> \<open>the body is \<open>pass\<close>\<close>
  "handle_java_build rt repo_path instructions st = (Returned None, st)"

definition handle_go_build :: "runtime \<Rightarrow> string \<Rightarrow> BuildInstructions \<Rightarrow> state \<Rightarrow> bool option res \<times> state" where
  \<comment> \<open>the body is \<open>pass\<close>\<close>
  "handle_go_build rt repo_path instructions st = (Returned None, st)"

definition handle_rust_build :: "runtime \<Rightarrow> string \<Rightarrow> BuildInstructions \<Rightarrow> state \<Rightarrow> bool option res \<times> state" where
  \<comment> \<open>the body is \<open>pass\<close>\<close>
  "handle_rust_build rt repo_path instructions st = (Returned None, st)"

definition build_handlers :: "(string \<times> (runtime \<Rightarrow> string \<Rightarrow> BuildInstructions \<Rightarrow> state \<Rightarrow> bool option res \<times> state)) list" where
  "build_handlers =
     [(''python'', handle_python_build),
      (''javascript'', handle_javascript_build),
      (''typescript'', handle_javascript_build),
      (''java'', handle_java_build),
      (''go'', handle_go_build),
      (''rust'', handle_rust_build)]"

definition attempt_build :: "runtime \<Rightarrow> string \<Rightarrow> BuildInstructions \<Rightarrow> state \<Rightarrow> bool option res \<times> state" where
  \<comment> \<open>the \<open>try\<close> block of \<open>execute_build\<close>\<close>
  "attempt_build rt repo_path instructions st =
     (case setup_environment rt repo_path instructions st of
        (Raised e, st') \<Rightarrow> (Raised e, st')
      | (Returned _, st') \<Rightarrow>
          (case map_of build_handlers (py_lower (language instructions)) of
             Some handler \<Rightarrow>
               handler rt repo_path instructions
                 (st'\<lparr>events := events st' @ [Dispatch (py_lower (language instructions))]\<rparr>)
           | None \<Rightarrow>
               (Raised (BuildError (''Unsupported language: '' @ language instructions) None), st')))"

text \<open>
  \<open>execute_build\<close> and \<open>_handle_build_failure\<close> call each other. The recursion ends because
  the \<open>try\<close> block of \<open>execute_build\<close> never lets a \<open>CalledProcessError\<close> out: the
  environment setup wraps every exception in a \<open>BuildError\<close>, and the handlers catch it.
\<close>

lemma build_result_no_cpe: "fst (build_result r) \<noteq> Raised (CalledProcessError a c)"
  by (auto simp: build_result_def split: prod.splits res.splits exn.splits)

lemma setup_environment_no_cpe:
  "fst (setup_environment rt p i st) \<noteq> Raised (CalledProcessError a c)"
  by (auto simp: setup_environment_def reraise_def split: prod.splits res.splits if_splits)

lemma attempt_build_no_cpe:
  "fst (attempt_build rt p i st) \<noteq> Raised (CalledProcessError a c)"
proof (cases "setup_environment rt p i st")
  case (Pair r st')
  show ?thesis
  proof (cases r)
    case (Raised e)
    with Pair setup_environment_no_cpe[of rt p i st a c] show ?thesis
      by (simp add: attempt_build_def)
  next
    case (Returned u)
    with Pair show ?thesis
      by (auto simp: attempt_build_def build_handlers_def handle_python_build_def
            handle_javascript_build_def handle_java_build_def handle_go_build_def
            handle_rust_build_def build_result_no_cpe split: option.splits)
  qed
qed

function execute_build :: "runtime \<Rightarrow> string \<Rightarrow> BuildInstructions \<Rightarrow> state \<Rightarrow> bool option res \<times> state"
  and handle_build_failure :: "runtime \<Rightarrow> string \<Rightarrow> exn \<Rightarrow> state \<Rightarrow> bool option res \<times> state" where
  "execute_build rt repo_path instructions st =
     (case attempt_build rt repo_path instructions st of
        (Raised (CalledProcessError argv code), st') \<Rightarrow>
          handle_build_failure rt repo_path (CalledProcessError argv code) st'
      | r \<Rightarrow> r)"
| "handle_build_failure rt repo_path error st =
     (let st1 = clean_build_artifacts rt (st\<lparr>events := events st @ [Recover]\<rparr>)
      in case modify_build_instructions rt (tree st1) of
           Raised retry_error \<Rightarrow> (Returned (Some False), st1)
         | Returned modified_instructions \<Rightarrow>
             (case execute_build rt repo_path modified_instructions st1 of
                (Raised retry_error, st2) \<Rightarrow> (Returned (Some False), st2)
              | r \<Rightarrow> r))"
  by pat_completeness auto
termination
proof (relation "measure (\<lambda>x. case x of Inl _ \<Rightarrow> 0 | Inr _ \<Rightarrow> Suc 0)")
  show "wf (measure (\<lambda>x. case x of Inl _ \<Rightarrow> 0 | Inr _ \<Rightarrow> Suc 0))"
    by simp
next
  fix rt repo_path instructions st r st' e argv code
  assume "(r, st') = attempt_build rt repo_path instructions st"
    and "r = Raised e" and "e = CalledProcessError argv code"
  then have False
    by (metis attempt_build_no_cpe fst_conv)
  then show "(Inr (rt, repo_path, CalledProcessError argv code, st'),
              Inl (rt, repo_path, instructions, st))
             \<in> measure (\<lambda>x. case x of Inl _ \<Rightarrow> 0 | Inr _ \<Rightarrow> Suc 0)"
    by simp
next
  fix rt repo_path error st st1 modified
  show "(Inl (rt, repo_path, modified, st1), Inr (rt, repo_path, error, st))
        \<in> measure (\<lambda>x. case x of Inl _ \<Rightarrow> 0 | Inr _ \<Rightarrow> Suc 0)"
    by simp
qed

declare execute_build.simps [simp del]

declare handle_build_failure.simps [simp del]

section \<open>Fixtures for the concrete runs\<close>

text \<open>
  A runtime whose process host lets every command exit with the given status and leaves
  the checkout as it was, and whose parsers reject every text.
\<close>

definition stub_runtime :: "int \<Rightarrow> runtime" where
  "stub_runtime code =
     \<lparr>host = (\<lambda>n argv root. (Exited code, root)),
      json_load = (\<lambda>text. None),
      toml_load = (\<lambda>text. None),
      repr_dict = (\<lambda>kvs. []),
      rmtree_fails = (\<lambda>name. False)\<rparr>"

definition poetry_tree :: node where
  "poetry_tree = Dir [(''requirements.txt'', File (Some ''requests==2.0'')),
                      (''pyproject.toml'', File (Some ''[tool.poetry]'')),
                      (''src'', Dir [(''setup.py'', File (Some []))])]"

definition cobol_instructions :: BuildInstructions where
  "cobol_instructions =
     \<lparr>language = ''COBOL'', build_system = ''unknown'', dependencies = Some [],
      setup_steps = Some [], build_commands = Some [''make''], test_commands = Some []\<rparr>"

definition broken_tree :: node where
  "broken_tree = Dir [(''requirements.txt'', File (Some ''requests==2.0'')),
                      (''setup.py'', Dir []),
                      (''package.json'', File (Some ''{dependencies: {left-pad'')),
                      (''go.mod'', File None),
                      (''Cargo.toml'', File (Some ''[dependencies''))]"

definition pinned_tree :: node where
  "pinned_tree =
     Dir [(''requirements.txt'',
           File (Some ''requests==2.0\<newline>flask>=1.0\<newline>\<newline>numpy==1.26\<newline>''))]"

definition venv_tree :: node where
  "venv_tree = Dir [(''.venv'', Dir []),
                    (''requirements.txt'', File (Some ''requests==2.0''))]"

definition python_instructions :: BuildInstructions where
  "python_instructions =
     \<lparr>language = ''python'', build_system = ''pip'', dependencies = Some [''requests==2.0''],
      setup_steps = Some [], build_commands = Some [''install -r requirements.txt''],
      test_commands = Some []\<rparr>"

definition retry_python :: "string list \<Rightarrow> BuildInstructions" where
  "retry_python deps =
     \<lparr>language = ''python'', build_system = ''pip'', dependencies = Some deps,
      setup_steps = Some [''Clean build artifacts'', ''Update package manager'',
                          ''Install dependencies with relaxed constraints''],
      build_commands = Some [''pip install --upgrade pip'',
                             ''pip install -r requirements.txt --upgrade''],
      test_commands = Some []\<rparr>"

definition java_tree :: node where
  "java_tree = Dir [(''pom.xml'', File (Some ''<project/>''))]"


definition mixed_tree :: node where
  "mixed_tree = Dir [(''main.go'', File None), (''tool.py'', File None),
                     (''pkg'', Dir [(''util.go'', File None)])]"

section \<open>Language detection\<close>

lemma py_max_keeps:
  "\<forall>c \<in> set xs. snd c \<le> snd best \<Longrightarrow> py_max best xs = best"
  by (induction xs arbitrary: best) auto

lemma py_max_first:
  "snd best < n \<Longrightarrow> \<forall>c \<in> set pre. snd c < n \<Longrightarrow> \<forall>c \<in> set post. snd c \<le> n \<Longrightarrow>
   py_max best (pre @ (l, n) # post) = (l, n)"
proof (induction pre arbitrary: best)
  case Nil
  then show ?case by (simp add: py_max_keeps)
next
  case (Cons x pre)
  then show ?case by simp
qed

text \<open>
  C2 (as the code has it). Language detection returns the language whose match count is
  highest, the first-declared one among equals: if the count table splits into the
  entries before a language, all strictly smaller, that language, and the entries after
  it, none greater, then that language is returned. When every count is zero the result
  is the first language of the table, \<open>python\<close>; the code has no \<open>unknown\<close> branch.
\<close>

theorem detect_primary_language_first_max:
  "(language_counts root = pre @ (lang, n) # post \<and>
    (\<forall>c \<in> set pre. snd c < n) \<and> (\<forall>c \<in> set post. snd c \<le> n)
      \<longrightarrow> detect_primary_language root = Returned lang) \<and>
   ((\<forall>c \<in> set (language_counts root). snd c = 0)
      \<longrightarrow> detect_primary_language root = Returned ''python'')"
proof (intro conjI impI)
  assume h: "language_counts root = pre @ (lang, n) # post \<and>
    (\<forall>c \<in> set pre. snd c < n) \<and> (\<forall>c \<in> set post. snd c \<le> n)"
  show "detect_primary_language root = Returned lang"
  proof (cases pre)
    case Nil
    with h show ?thesis
      by (simp add: detect_primary_language_def py_max_keeps)
  next
    case (Cons x pre')
    with h have "py_max x (pre' @ (lang, n) # post) = (lang, n)"
      by (intro py_max_first) auto
    with h Cons show ?thesis
      by (simp add: detect_primary_language_def)
  qed
next
  assume z: "\<forall>c \<in> set (language_counts root). snd c = 0"
  obtain k rest where r: "language_counts root = (''python'', k) # rest"
    by (simp add: language_counts_def language_patterns_def)
  with z have "py_max (''python'', k) rest = (''python'', k)"
    by (intro py_max_keeps) auto
  with r show "detect_primary_language root = Returned ''python''"
    by (simp add: detect_primary_language_def)
qed

text \<open>
  On \<open>mixed_tree\<close> (two Go files, one Python file) the counts are 1, 0, 0, 0, 2, 0 and the
  result is \<open>go\<close>; on the empty checkout every count is zero and the result is \<open>python\<close>.
\<close>

theorem detect_primary_language_first_max_witness:
  "language_counts mixed_tree =
     [(''python'', 1), (''javascript'', 0), (''typescript'', 0), (''java'', 0)]
       @ (''go'', 2) # [(''rust'', 0)] \<and>
   detect_primary_language mixed_tree = Returned ''go'' \<and>
   detect_primary_language (Dir []) = Returned ''python''"
proof -
  have c: "language_counts mixed_tree =
     [(''python'', 1), (''javascript'', 0), (''typescript'', 0), (''java'', 0)]
       @ (''go'', 2) # [(''rust'', 0)]"
    by (simp add: language_counts_def language_patterns_def mixed_tree_def)
  have z: "\<forall>c \<in> set (language_counts (Dir [])). snd c = 0"
    by (simp add: language_counts_def language_patterns_def)
  from detect_primary_language_first_max
         [of mixed_tree "[(''python'', 1), (''javascript'', 0), (''typescript'', 0), (''java'', 0)]"
             "''go''" 2 "[(''rust'', 0)]"] c
  have "detect_primary_language mixed_tree = Returned ''go''"
    by simp
  moreover from detect_primary_language_first_max [of "Dir []"] z
  have "detect_primary_language (Dir []) = Returned ''python''"
    by blast
  ultimately show ?thesis
    using c by simp
qed

text \<open>
  The claim as the specification states it fails on the empty checkout: all six counts are
  zero and the result is \<open>python\<close>, not the sentinel \<open>unknown\<close>.
\<close>

theorem detect_primary_language_unknown_counterexample:
  "language_counts (Dir []) =
     [(''python'', 0), (''javascript'', 0), (''typescript'', 0), (''java'', 0),
      (''go'', 0), (''rust'', 0)] \<and>
   detect_primary_language (Dir []) = Returned ''python'' \<and>
   detect_primary_language (Dir []) \<noteq> Returned ''unknown''"
  by (simp add: detect_primary_language_def language_counts_def language_patterns_def)

section \<open>Dependency analysis of TypeScript\<close>

text \<open>
  C10. No analyzer is registered for \<open>typescript\<close>, so dependency analysis of a
  TypeScript repository returns the empty list whatever the checkout holds, a
  \<open>package.json\<close> with declared dependencies included.
\<close>

theorem typescript_no_dependencies:
  "map_of analyzers ''typescript'' = None \<and>
   analyze_dependencies rt root ''typescript'' = Returned (Some [])"
  by (simp add: analyze_dependencies_def analyzers_def)

section \<open>Build-system detection\<close>

lemma first_marker_none:
  "\<forall>m \<in> set ms. \<not> path_exists root (fst m) \<Longrightarrow> first_marker root ms = None"
  by (induction ms) auto

lemma first_marker_first:
  "\<forall>m \<in> set pre. \<not> path_exists root (fst m) \<Longrightarrow> path_exists root file \<Longrightarrow>
   first_marker root (pre @ (file, system) # post) = Some system"
  by (induction pre) auto

text \<open>
  C7. Build-system detection returns the build system of the first marker file, in the
  table order of the language, that is present at the repository root: if the markers of
  the language split into markers that are all absent, a marker that is present, and the
  rest, the result is the system of that marker. When no marker of the language is present
  (a language without a table entry has none) the result is \<open>unknown\<close>; so it is for the
  language \<open>unknown\<close>.
\<close>

theorem detect_build_system_first_marker:
  "(map_of build_systems lang = Some (pre @ (file, system) # post) \<and>
    (\<forall>m \<in> set pre. \<not> path_exists root (fst m)) \<and> path_exists root file
      \<longrightarrow> detect_build_system root lang = system) \<and>
   ((\<forall>markers. map_of build_systems lang = Some markers
        \<longrightarrow> (\<forall>m \<in> set markers. \<not> path_exists root (fst m)))
      \<longrightarrow> detect_build_system root lang = ''unknown'') \<and>
   detect_build_system root ''unknown'' = ''unknown''"
proof (intro conjI impI)
  assume "map_of build_systems lang = Some (pre @ (file, system) # post) \<and>
    (\<forall>m \<in> set pre. \<not> path_exists root (fst m)) \<and> path_exists root file"
  then show "detect_build_system root lang = system"
    by (simp add: detect_build_system_def first_marker_first)
next
  assume a: "\<forall>markers. map_of build_systems lang = Some markers
        \<longrightarrow> (\<forall>m \<in> set markers. \<not> path_exists root (fst m))"
  show "detect_build_system root lang = ''unknown''"
  proof (cases "map_of build_systems lang")
    case None
    then show ?thesis by (simp add: detect_build_system_def)
  next
    case (Some markers)
    with a have "first_marker root markers = None"
      by (intro first_marker_none) blast
    with Some show ?thesis by (simp add: detect_build_system_def)
  qed
next
  show "detect_build_system root ''unknown'' = ''unknown''"
    by (simp add: detect_build_system_def build_systems_def)
qed

text \<open>
  \<open>poetry_tree\<close> has \<open>requirements.txt\<close> and \<open>pyproject.toml\<close> at its root and a
  \<open>setup.py\<close> one level down: the first marker of \<open>python\<close> is absent at the root, the
  second is present, and the result is \<open>poetry\<close>. The empty checkout gives \<open>unknown\<close>,
  and so does \<open>typescript\<close>, which has no table entry.
\<close>

theorem detect_build_system_first_marker_witness:
  "map_of build_systems ''python'' =
     Some ([(''setup.py'', ''setuptools'')] @ (''pyproject.toml'', ''poetry'')
             # [(''requirements.txt'', ''pip'')]) \<and>
   \<not> path_exists poetry_tree ''setup.py'' \<and>
   path_exists poetry_tree ''pyproject.toml'' \<and>
   detect_build_system poetry_tree ''python'' = ''poetry'' \<and>
   detect_build_system (Dir []) ''python'' = ''unknown'' \<and>
   detect_build_system poetry_tree ''typescript'' = ''unknown''"
proof -
  have m: "map_of build_systems ''python'' =
     Some ([(''setup.py'', ''setuptools'')] @ (''pyproject.toml'', ''poetry'')
             # [(''requirements.txt'', ''pip'')])"
    by (simp add: build_systems_def)
  have e: "\<not> path_exists poetry_tree ''setup.py''" "path_exists poetry_tree ''pyproject.toml''"
    by (simp_all add: path_exists_def poetry_tree_def)
  from detect_build_system_first_marker
         [of "''python''" "[(''setup.py'', ''setuptools'')]" "''pyproject.toml''" "''poetry''"
             "[(''requirements.txt'', ''pip'')]" poetry_tree] m e
  have 1: "detect_build_system poetry_tree ''python'' = ''poetry''"
    by simp
  have "\<forall>markers. map_of build_systems ''python'' = Some markers
        \<longrightarrow> (\<forall>m \<in> set markers. \<not> path_exists (Dir []) (fst m))"
    by (simp add: path_exists_def)
  with detect_build_system_first_marker [of "''python''" _ _ _ _ "Dir []"]
  have 2: "detect_build_system (Dir []) ''python'' = ''unknown''"
    by blast
  have "\<forall>markers. map_of build_systems ''typescript'' = Some markers
        \<longrightarrow> (\<forall>m \<in> set markers. \<not> path_exists poetry_tree (fst m))"
    by (simp add: build_systems_def)
  with detect_build_system_first_marker [of "''typescript''" _ _ _ _ poetry_tree]
  have 3: "detect_build_system poetry_tree ''typescript'' = ''unknown''"
    by blast
  from m e 1 2 3 show ?thesis by simp
qed

section \<open>Execution: dispatch and the recovery cycle\<close>

text \<open>The failure handling is never entered: \<open>execute_build\<close> is its own \<open>try\<close> block.\<close>

lemma execute_build_is_attempt:
  "execute_build rt p i st = attempt_build rt p i st"
proof (cases "attempt_build rt p i st")
  case (Pair r st')
  with attempt_build_no_cpe[of rt p i st] show ?thesis
    by (cases r) (auto simp: execute_build.simps split: exn.splits)
qed

text \<open>
  C6. When the lower-cased language of the instructions has no registered handler,
  \<open>execute_build\<close> raises the \<open>BuildError\<close> that names the unsupported language, and the
  state is the one it started from: no process was run, nothing was removed, no handler
  was dispatched and the failure handling was not entered.
\<close>

theorem execute_build_unsupported_language:
  assumes "map_of build_handlers (py_lower (language instructions)) = None"
  shows "execute_build rt repo_path instructions st =
           (Raised (BuildError (''Unsupported language: '' @ language instructions) None), st)"
proof -
  from assms have n: "py_lower (language instructions) \<noteq> ''python''"
    "py_lower (language instructions) \<noteq> ''javascript''"
    "py_lower (language instructions) \<noteq> ''typescript''"
    by (auto simp: build_handlers_def)
  then have "setup_environment rt repo_path instructions st = (Returned (), st)"
    by (simp add: setup_environment_def reraise_def)
  with assms have "attempt_build rt repo_path instructions st =
      (Raised (BuildError (''Unsupported language: '' @ language instructions) None), st)"
    by (simp add: attempt_build_def)
  then show ?thesis
    by (simp add: execute_build_is_attempt)
qed

theorem execute_build_unsupported_language_witness:
  "map_of build_handlers (py_lower (language cobol_instructions)) = None \<and>
   execute_build (stub_runtime 0) ''/repo'' cobol_instructions \<lparr>tree = mixed_tree, events = []\<rparr> =
     (Raised (BuildError ''Unsupported language: COBOL'' None), \<lparr>tree = mixed_tree, events = []\<rparr>)"
proof -
  have h: "map_of build_handlers (py_lower (language cobol_instructions)) = None"
    by (simp add: build_handlers_def cobol_instructions_def py_lower_def lower_char_def)
  from execute_build_unsupported_language
         [OF h, of "stub_runtime 0" "''/repo''" "\<lparr>tree = mixed_tree, events = []\<rparr>"] h
  show ?thesis
    by (simp add: cobol_instructions_def)
qed

section \<open>Dependency analysis never raises\<close>

lemma catch_all_returns: "\<exists>v. catch_all r d = Returned v"
  by (cases r) (simp_all add: catch_all_def)

lemma catch_all_raised: "r = Raised e \<Longrightarrow> catch_all r d = Returned d"
  by (simp add: catch_all_def)

lemma analyzer_returns:
  "\<exists>deps. analyze_python_dependencies rt root = Returned deps"
  "\<exists>deps. analyze_javascript_dependencies rt root = Returned deps"
  "\<exists>deps. analyze_java_dependencies rt root = Returned deps"
  "\<exists>deps. analyze_go_dependencies rt root = Returned deps"
  "\<exists>deps. analyze_rust_dependencies rt root = Returned deps"
  unfolding analyze_python_dependencies_def analyze_javascript_dependencies_def
    analyze_java_dependencies_def analyze_go_dependencies_def analyze_rust_dependencies_def
  by (simp_all add: catch_all_def split: res.splits)

lemma analyze_dependencies_returns:
  "\<exists>deps. analyze_dependencies rt root lang = Returned deps"
proof (cases "map_of analyzers lang")
  case None
  then show ?thesis by (simp add: analyze_dependencies_def)
next
  case (Some analyzer)
  then have "analyzer \<in> {analyze_python_dependencies, analyze_javascript_dependencies,
      analyze_java_dependencies, analyze_go_dependencies, analyze_rust_dependencies}"
    by (auto simp: analyzers_def split: if_splits)
  with analyzer_returns[of rt root] have "\<exists>deps. analyzer rt root = Returned deps"
    by auto
  with Some show ?thesis by (simp add: analyze_dependencies_def)
qed

lemma analyze_python_failure:
  "python_dependencies root = Raised e \<Longrightarrow>
   analyze_dependencies rt root ''python'' = Returned (Some [])"
  by (simp add: analyze_dependencies_def analyzers_def analyze_python_dependencies_def catch_all_def)

lemma analyze_javascript_failure:
  "javascript_dependencies rt root = Raised e \<Longrightarrow>
   analyze_dependencies rt root ''javascript'' = Returned (Some [])"
  by (simp add: analyze_dependencies_def analyzers_def analyze_javascript_dependencies_def catch_all_def)

lemma analyze_go_failure:
  "go_dependencies root = Raised e \<Longrightarrow>
   analyze_dependencies rt root ''go'' = Returned (Some [])"
  by (simp add: analyze_dependencies_def analyzers_def analyze_go_dependencies_def catch_all_def)

lemma analyze_rust_failure:
  "rust_dependencies rt root = Raised e \<Longrightarrow>
   analyze_dependencies rt root ''rust'' = Returned (Some [])"
  by (simp add: analyze_dependencies_def analyzers_def analyze_rust_dependencies_def catch_all_def)

text \<open>
  C3. Dependency analysis never raises, whatever the language, the checkout and the
  parsers: it always returns. Where the manifest of a language is present and cannot be
  read, or is read and rejected by its parser (truncated or malformed text), or parses to
  something that is not a table, the result is the empty list. (The Java analyzer has no
  body: it reads nothing and returns \<open>None\<close>.)
\<close>

theorem analyze_dependencies_never_raises:
  "(\<exists>deps. analyze_dependencies rt root lang = Returned deps) \<and>
   (path_exists root ''requirements.txt'' \<and> read_text root ''requirements.txt'' = Raised e
      \<longrightarrow> analyze_dependencies rt root ''python'' = Returned (Some [])) \<and>
   (path_exists root ''setup.py'' \<and> read_text root ''setup.py'' = Raised e
      \<longrightarrow> analyze_dependencies rt root ''python'' = Returned (Some [])) \<and>
   (path_exists root ''package.json'' \<and> read_text root ''package.json'' = Raised e
      \<longrightarrow> analyze_dependencies rt root ''javascript'' = Returned (Some [])) \<and>
   (path_exists root ''package.json'' \<and> read_text root ''package.json'' = Returned text \<and>
    json_load rt text = None
      \<longrightarrow> analyze_dependencies rt root ''javascript'' = Returned (Some [])) \<and>
   (path_exists root ''package.json'' \<and> read_text root ''package.json'' = Returned text \<and>
    json_load rt text = Some (VOther other)
      \<longrightarrow> analyze_dependencies rt root ''javascript'' = Returned (Some [])) \<and>
   (path_exists root ''go.mod'' \<and> read_text root ''go.mod'' = Raised e
      \<longrightarrow> analyze_dependencies rt root ''go'' = Returned (Some [])) \<and>
   (path_exists root ''Cargo.toml'' \<and> read_text root ''Cargo.toml'' = Raised e
      \<longrightarrow> analyze_dependencies rt root ''rust'' = Returned (Some [])) \<and>
   (path_exists root ''Cargo.toml'' \<and> read_text root ''Cargo.toml'' = Returned text \<and>
    toml_load rt text = None
      \<longrightarrow> analyze_dependencies rt root ''rust'' = Returned (Some []))"
proof (intro conjI impI)
  show "\<exists>deps. analyze_dependencies rt root lang = Returned deps"
    by (rule analyze_dependencies_returns)
next
  assume "path_exists root ''requirements.txt'' \<and> read_text root ''requirements.txt'' = Raised e"
  then have "python_dependencies root = Raised e"
    by (simp add: python_dependencies_def)
  then show "analyze_dependencies rt root ''python'' = Returned (Some [])"
    by (rule analyze_python_failure)
next
  assume a: "path_exists root ''setup.py'' \<and> read_text root ''setup.py'' = Raised e"
  then have "\<exists>e'. python_dependencies root = Raised e'"
    by (auto simp: python_dependencies_def split: res.splits)
  then show "analyze_dependencies rt root ''python'' = Returned (Some [])"
    by (auto intro: analyze_python_failure)
next
  assume "path_exists root ''package.json'' \<and> read_text root ''package.json'' = Raised e"
  then have "javascript_dependencies rt root = Raised e"
    by (simp add: javascript_dependencies_def)
  then show "analyze_dependencies rt root ''javascript'' = Returned (Some [])"
    by (rule analyze_javascript_failure)
next
  assume "path_exists root ''package.json'' \<and> read_text root ''package.json'' = Returned text \<and>
    json_load rt text = None"
  then have "javascript_dependencies rt root = Raised ParseError"
    by (simp add: javascript_dependencies_def)
  then show "analyze_dependencies rt root ''javascript'' = Returned (Some [])"
    by (rule analyze_javascript_failure)
next
  assume "path_exists root ''package.json'' \<and> read_text root ''package.json'' = Returned text \<and>
    json_load rt text = Some (VOther other)"
  then have "javascript_dependencies rt root = Raised AttributeError"
    by (simp add: javascript_dependencies_def dict_get_def)
  then show "analyze_dependencies rt root ''javascript'' = Returned (Some [])"
    by (rule analyze_javascript_failure)
next
  assume "path_exists root ''go.mod'' \<and> read_text root ''go.mod'' = Raised e"
  then have "go_dependencies root = Raised e"
    by (simp add: go_dependencies_def)
  then show "analyze_dependencies rt root ''go'' = Returned (Some [])"
    by (rule analyze_go_failure)
next
  assume "path_exists root ''Cargo.toml'' \<and> read_text root ''Cargo.toml'' = Raised e"
  then have "rust_dependencies rt root = Raised e"
    by (simp add: rust_dependencies_def)
  then show "analyze_dependencies rt root ''rust'' = Returned (Some [])"
    by (rule analyze_rust_failure)
next
  assume "path_exists root ''Cargo.toml'' \<and> read_text root ''Cargo.toml'' = Returned text \<and>
    toml_load rt text = None"
  then have "rust_dependencies rt root = Raised ParseError"
    by (simp add: rust_dependencies_def)
  then show "analyze_dependencies rt root ''rust'' = Returned (Some [])"
    by (rule analyze_rust_failure)
qed

text \<open>
  In \<open>broken_tree\<close>, \<open>setup.py\<close> is a directory, \<open>go.mod\<close> cannot be read, and
  \<open>package.json\<close> and \<open>Cargo.toml\<close> are truncated, so that the parsers of \<open>stub_runtime\<close>
  reject them.
\<close>

theorem analyze_dependencies_never_raises_witness:
  "path_exists broken_tree ''setup.py'' \<and> read_text broken_tree ''setup.py'' = Raised OSError \<and>
   analyze_dependencies (stub_runtime 0) broken_tree ''python'' = Returned (Some []) \<and>
   path_exists broken_tree ''package.json'' \<and>
   read_text broken_tree ''package.json'' = Returned ''{dependencies: {left-pad'' \<and>
   json_load (stub_runtime 0) ''{dependencies: {left-pad'' = None \<and>
   analyze_dependencies (stub_runtime 0) broken_tree ''javascript'' = Returned (Some []) \<and>
   path_exists broken_tree ''go.mod'' \<and> read_text broken_tree ''go.mod'' = Raised OSError \<and>
   analyze_dependencies (stub_runtime 0) broken_tree ''go'' = Returned (Some []) \<and>
   path_exists broken_tree ''Cargo.toml'' \<and>
   read_text broken_tree ''Cargo.toml'' = Returned ''[dependencies'' \<and>
   toml_load (stub_runtime 0) ''[dependencies'' = None \<and>
   analyze_dependencies (stub_runtime 0) broken_tree ''rust'' = Returned (Some []) \<and>
   analyze_dependencies (stub_runtime 0) broken_tree ''java'' = Returned None"
proof -
  have f: "path_exists broken_tree ''setup.py''" "read_text broken_tree ''setup.py'' = Raised OSError"
    "path_exists broken_tree ''package.json''"
    "read_text broken_tree ''package.json'' = Returned ''{dependencies: {left-pad''"
    "json_load (stub_runtime 0) ''{dependencies: {left-pad'' = None"
    "path_exists broken_tree ''go.mod''" "read_text broken_tree ''go.mod'' = Raised OSError"
    "path_exists broken_tree ''Cargo.toml''"
    "read_text broken_tree ''Cargo.toml'' = Returned ''[dependencies''"
    "toml_load (stub_runtime 0) ''[dependencies'' = None"
    by (simp_all add: path_exists_def read_text_def broken_tree_def stub_runtime_def)
  have j: "analyze_dependencies (stub_runtime 0) broken_tree ''java'' = Returned None"
    by (simp add: analyze_dependencies_def analyzers_def analyze_java_dependencies_def)
  from analyze_dependencies_never_raises
         [of "stub_runtime 0" broken_tree "''java''" OSError "''{dependencies: {left-pad''"]
       analyze_dependencies_never_raises
         [of "stub_runtime 0" broken_tree "''java''" OSError "''[dependencies''"] f j
  show ?thesis
    by simp
qed

section \<open>Retry-instruction synthesis\<close>

lemma prefix_append_long:
  "length sep \<le> length ys \<Longrightarrow> prefix sep (ys @ zs) = prefix sep ys"
  by (auto simp: prefix_append)

lemma py_replace_absent:
  "\<not> py_in old s \<Longrightarrow> py_replace old new s = s"
proof (induction s)
  case Nil
  then show ?case by (simp add: py_replace.simps)
next
  case (Cons c cs)
  then show ?case by (subst py_replace.simps) simp
qed

lemma py_replace_first:
  assumes "old \<noteq> []" and "\<not> py_in old (a @ butlast old)"
  shows "py_replace old new (a @ old @ b) = a @ new @ py_replace old new b"
  using assms(2)
proof (induction a)
  case Nil
  with assms(1) show ?case
    by (subst py_replace.simps) simp
next
  case (Cons c a)
  have len: "length old \<le> length (c # a @ butlast old)"
    by simp
  from Cons.prems have np: "\<not> prefix old (c # a @ butlast old)" and ni: "\<not> py_in old (a @ butlast old)"
    by simp_all
  have "c # a @ old @ b = (c # a @ butlast old) @ (last old # b)"
    using assms(1) by simp
  with np len have "\<not> prefix old (c # a @ old @ b)"
    by (metis prefix_append_long)
  with assms(1) Cons.IH[OF ni] show ?case
    by (subst py_replace.simps) simp
qed

text \<open>
  C4. When retry-instruction synthesis returns instructions, their \<open>test_commands\<close> is
  the empty list, and their dependency list is the list that dependency analysis gives
  for the detected language with \<open>replace('==', '>=')\<close> applied to every descriptor.
  That replacement rewrites every occurrence of \<open>==\<close>, from left to right: where the
  first occurrence in a descriptor starts after a prefix \<open>a\<close>, the result is \<open>a\<close>,
  then \<open>>=\<close>, then the rest rewritten in the same way; a descriptor without \<open>==\<close> is
  unchanged.
\<close>

theorem modify_build_instructions_relaxes:
  "(modify_build_instructions rt root = Returned instructions \<longrightarrow>
      test_commands instructions = Some [] \<and>
      (\<exists>deps. analyze_dependencies rt root (language instructions) = Returned (Some deps) \<and>
              dependencies instructions = Some (map (py_replace ''=='' ''>='') deps))) \<and>
   (\<not> py_in ''=='' (a @ ''='') \<longrightarrow>
      py_replace ''=='' ''>='' (a @ ''=='' @ b) = a @ ''>='' @ py_replace ''=='' ''>='' b) \<and>
   (\<not> py_in ''=='' d \<longrightarrow> py_replace ''=='' ''>='' d = d)"
proof (intro conjI impI)
  assume m: "modify_build_instructions rt root = Returned instructions"
  then obtain lang where l: "detect_primary_language root = Returned lang"
    by (auto simp: modify_build_instructions_def reraise_def split: res.splits)
  with m obtain deps where d: "analyze_dependencies rt root lang = Returned deps"
    by (auto simp: modify_build_instructions_def reraise_def Let_def split: res.splits)
  with m l obtain relaxed where r: "relax deps = Returned relaxed"
    by (auto simp: modify_build_instructions_def reraise_def Let_def split: res.splits)
  then obtain ds where ds: "deps = Some ds" "relaxed = map (py_replace ''=='' ''>='') ds"
    by (auto simp: relax_def split: option.splits)
  from m l d r have i: "instructions =
      \<lparr>language = lang, build_system = detect_build_system root lang,
       dependencies = Some relaxed,
       setup_steps = Some [''Clean build artifacts'', ''Update package manager'',
                           ''Install dependencies with relaxed constraints''],
       build_commands = Some (retry_commands lang),
       test_commands = Some []\<rparr>"
    by (simp add: modify_build_instructions_def reraise_def Let_def)
  then show "test_commands instructions = Some []"
    by simp
  from i d ds show "\<exists>deps. analyze_dependencies rt root (language instructions) = Returned (Some deps) \<and>
              dependencies instructions = Some (map (py_replace ''=='' ''>='') deps)"
    by simp
next
  assume "\<not> py_in ''=='' (a @ ''='')"
  then show "py_replace ''=='' ''>='' (a @ ''=='' @ b) = a @ ''>='' @ py_replace ''=='' ''>='' b"
    using py_replace_first[of "''==''" a "''>=''" b] by simp
next
  assume "\<not> py_in ''=='' d"
  then show "py_replace ''=='' ''>='' d = d"
    by (rule py_replace_absent)
qed

text \<open>
  \<open>pinned_tree\<close> holds a \<open>requirements.txt\<close> with two pinned descriptors, one lower
  bound and a blank line.
\<close>

theorem modify_build_instructions_relaxes_witness:
  "modify_build_instructions (stub_runtime 0) pinned_tree =
     Returned \<lparr>language = ''python'', build_system = ''pip'',
               dependencies = Some [''requests>=2.0'', ''flask>=1.0'', ''numpy>=1.26''],
               setup_steps = Some [''Clean build artifacts'', ''Update package manager'',
                                   ''Install dependencies with relaxed constraints''],
               build_commands = Some [''pip install --upgrade pip'',
                                      ''pip install -r requirements.txt --upgrade''],
               test_commands = Some []\<rparr> \<and>
   analyze_dependencies (stub_runtime 0) pinned_tree ''python'' =
     Returned (Some [''requests==2.0'', ''flask>=1.0'', ''numpy==1.26'']) \<and>
   \<not> py_in ''=='' (''requests'' @ ''='') \<and>
   py_replace ''=='' ''>='' (''requests'' @ ''=='' @ ''2.0'') = ''requests>=2.0'' \<and>
   \<not> py_in ''=='' ''flask>=1.0'' \<and>
   py_replace ''=='' ''>='' ''flask>=1.0'' = ''flask>=1.0''"
proof -
  have a: "analyze_dependencies (stub_runtime 0) pinned_tree ''python'' =
     Returned (Some [''requests==2.0'', ''flask>=1.0'', ''numpy==1.26''])"
    by (simp add: analyze_dependencies_def analyzers_def analyze_python_dependencies_def
          catch_all_def python_dependencies_def path_exists_def read_text_def pinned_tree_def
          py_strip_def py_isspace_def)
  have l: "detect_primary_language pinned_tree = Returned ''python''"
    by (simp add: detect_primary_language_def language_counts_def language_patterns_def
          pinned_tree_def)
  have b: "detect_build_system pinned_tree ''python'' = ''pip''"
    by (simp add: detect_build_system_def build_systems_def path_exists_def pinned_tree_def)
  have r: "py_replace ''=='' ''>='' ''requests==2.0'' = ''requests>=2.0''"
    "py_replace ''=='' ''>='' ''flask>=1.0'' = ''flask>=1.0''"
    "py_replace ''=='' ''>='' ''numpy==1.26'' = ''numpy>=1.26''"
    by (simp_all add: py_replace.simps)
  have m: "modify_build_instructions (stub_runtime 0) pinned_tree =
     Returned \<lparr>language = ''python'', build_system = ''pip'',
               dependencies = Some [''requests>=2.0'', ''flask>=1.0'', ''numpy>=1.26''],
               setup_steps = Some [''Clean build artifacts'', ''Update package manager'',
                                   ''Install dependencies with relaxed constraints''],
               build_commands = Some [''pip install --upgrade pip'',
                                      ''pip install -r requirements.txt --upgrade''],
               test_commands = Some []\<rparr>"
    by (simp add: modify_build_instructions_def reraise_def l b a relax_def r retry_commands_def)
  have n: "\<not> py_in ''=='' (''requests'' @ ''='')" "\<not> py_in ''=='' ''flask>=1.0''"
    by simp_all
  from modify_build_instructions_relaxes
         [of "stub_runtime 0" pinned_tree _ "''requests''" "''2.0''" "''flask>=1.0''"] m a n
  show ?thesis
    by (simp add: r)
qed

section \<open>The recovery cycle and the environment, on concrete runs\<close>

lemmas run_defs = attempt_build_def setup_environment_def reraise_def build_handlers_def
  handle_python_build_def build_result_def run_build_commands_def subprocess_run_def
  stub_runtime_def path_exists_def path_join_def py_lower_def lower_char_def
  py_isspace_def Let_def

text \<open>
  C1 (the code against the claim). \<open>execute_build\<close> is its own \<open>try\<close> block: the
  \<open>except\<close> clause that starts the retry is never reached, because the handlers turn a
  failed command into the result \<open>False\<close>. On a Python checkout whose \<open>.venv\<close> exists,
  with a process host on which every command exits with status 1, the build is attempted
  once (one dispatch, one process) and \<open>False\<close> is returned: nothing is cleaned, the
  failure handling is not entered, and there is no second attempt.
\<close>

theorem execute_build_failure_not_retried:
  "execute_build rt repo_path instructions st = attempt_build rt repo_path instructions st \<and>
   execute_build (stub_runtime 1) ''/repo'' python_instructions \<lparr>tree = venv_tree, events = []\<rparr> =
     (Returned (Some False),
      \<lparr>tree = venv_tree,
       events = [Dispatch ''python'', Run [''python'', ''-m'', ''venv'', ''/repo/.venv''] None]\<rparr>)"
  by (simp add: execute_build_is_attempt run_defs python_instructions_def venv_tree_def)

text \<open>
  C9 (the code against the claim). The checkout already has its \<open>.venv\<close>, and
  \<open>_setup_environment\<close> skips the creation; the Python handler that
  \<open>execute_build\<close> dispatches to then runs \<open>python -m venv\<close> on it all the same,
  before the build command.
\<close>

theorem execute_build_recreates_environment:
  "path_exists venv_tree ''.venv'' \<and>
   setup_environment (stub_runtime 0) ''/repo'' python_instructions \<lparr>tree = venv_tree, events = []\<rparr> =
     (Returned (), \<lparr>tree = venv_tree, events = []\<rparr>) \<and>
   execute_build (stub_runtime 0) ''/repo'' python_instructions \<lparr>tree = venv_tree, events = []\<rparr> =
     (Returned (Some True),
      \<lparr>tree = venv_tree,
       events = [Dispatch ''python'',
                 Run [''python'', ''-m'', ''venv'', ''/repo/.venv''] None,
                 Run [''/repo/.venv/bin/pip'', ''install'', ''-r'', ''requirements.txt''] None]\<rparr>)"
  by (simp add: execute_build_is_attempt run_defs python_instructions_def venv_tree_def)

lemma handle_build_failure_returns:
  "\<exists>b st'. handle_build_failure rt p e st = (Returned b, st')"
proof -
  define st1 where "st1 = clean_build_artifacts rt (st\<lparr>events := events st @ [Recover]\<rparr>)"
  show ?thesis
  proof (cases "modify_build_instructions rt (tree st1)")
    case (Raised x)
    then show ?thesis
      by (simp add: handle_build_failure.simps st1_def)
  next
    case (Returned m)
    obtain r st2 where a: "execute_build rt p m st1 = (r, st2)"
      by (cases "execute_build rt p m st1")
    with Returned show ?thesis
      by (cases r) (simp_all add: handle_build_failure.simps st1_def)
  qed
qed

lemma handle_build_failure_retry_raises:
  assumes "modify_build_instructions rt (tree (clean_build_artifacts rt (st\<lparr>events := events st @ [Recover]\<rparr>))) = Returned m"
    and "execute_build rt p m (clean_build_artifacts rt (st\<lparr>events := events st @ [Recover]\<rparr>)) = (Raised x, st2)"
  shows "handle_build_failure rt p e st = (Returned (Some False), st2)"
  using assms by (simp add: handle_build_failure.simps)

text \<open>
  C5 (as the code has it). The failure handling always returns, and what it returns is a
  bare truth value or \<open>None\<close>: the result does not depend on the original failure, and it
  is \<open>False\<close> when the retry instructions cannot be synthesized, when the retried build
  raises, and when the retried build reports failure. No failure reason, failed command,
  exit status or retry flag is part of it.
\<close>

theorem handle_build_failure_bare_result:
  "(\<exists>b st'. handle_build_failure rt p e st = (Returned b, st')) \<and>
   handle_build_failure rt p e st = handle_build_failure rt p e' st \<and>
   (modify_build_instructions rt
      (tree (clean_build_artifacts rt (st\<lparr>events := events st @ [Recover]\<rparr>))) = Raised x
      \<longrightarrow> fst (handle_build_failure rt p e st) = Returned (Some False)) \<and>
   (modify_build_instructions rt
      (tree (clean_build_artifacts rt (st\<lparr>events := events st @ [Recover]\<rparr>))) = Returned m \<and>
    execute_build rt p m (clean_build_artifacts rt (st\<lparr>events := events st @ [Recover]\<rparr>))
      = (Raised x, st2)
      \<longrightarrow> handle_build_failure rt p e st = (Returned (Some False), st2)) \<and>
   (modify_build_instructions rt
      (tree (clean_build_artifacts rt (st\<lparr>events := events st @ [Recover]\<rparr>))) = Returned m \<and>
    execute_build rt p m (clean_build_artifacts rt (st\<lparr>events := events st @ [Recover]\<rparr>))
      = (Returned (Some False), st2)
      \<longrightarrow> handle_build_failure rt p e st = (Returned (Some False), st2))"
proof (intro conjI impI)
  show "\<exists>b st'. handle_build_failure rt p e st = (Returned b, st')"
    by (rule handle_build_failure_returns)
  show "handle_build_failure rt p e st = handle_build_failure rt p e' st"
    by (simp add: handle_build_failure.simps)
next
  assume "modify_build_instructions rt
      (tree (clean_build_artifacts rt (st\<lparr>events := events st @ [Recover]\<rparr>))) = Raised x"
  then show "fst (handle_build_failure rt p e st) = Returned (Some False)"
    by (simp add: handle_build_failure.simps)
next
  assume "modify_build_instructions rt
      (tree (clean_build_artifacts rt (st\<lparr>events := events st @ [Recover]\<rparr>))) = Returned m \<and>
    execute_build rt p m (clean_build_artifacts rt (st\<lparr>events := events st @ [Recover]\<rparr>))
      = (Raised x, st2)"
  then show "handle_build_failure rt p e st = (Returned (Some False), st2)"
    by (simp add: handle_build_failure_retry_raises)
next
  assume "modify_build_instructions rt
      (tree (clean_build_artifacts rt (st\<lparr>events := events st @ [Recover]\<rparr>))) = Returned m \<and>
    execute_build rt p m (clean_build_artifacts rt (st\<lparr>events := events st @ [Recover]\<rparr>))
      = (Returned (Some False), st2)"
  then show "handle_build_failure rt p e st = (Returned (Some False), st2)"
    by (simp add: handle_build_failure.simps)
qed

lemmas clean_defs = clean_build_artifacts_def build_dirs_def rmtree_def remove_entry_def

lemma pinned_clean:
  "clean_build_artifacts rt \<lparr>tree = pinned_tree, events = [Recover]\<rparr> =
     \<lparr>tree = pinned_tree, events = [Recover]\<rparr>"
  by (simp add: clean_defs path_exists_def pinned_tree_def)

lemma pinned_modify:
  "modify_build_instructions (stub_runtime c) pinned_tree =
     Returned \<lparr>language = ''python'', build_system = ''pip'',
               dependencies = Some [''requests>=2.0'', ''flask>=1.0'', ''numpy>=1.26''],
               setup_steps = Some [''Clean build artifacts'', ''Update package manager'',
                                   ''Install dependencies with relaxed constraints''],
               build_commands = Some [''pip install --upgrade pip'',
                                      ''pip install -r requirements.txt --upgrade''],
               test_commands = Some []\<rparr>"
proof -
  have a: "analyze_dependencies (stub_runtime c) pinned_tree ''python'' =
     Returned (Some [''requests==2.0'', ''flask>=1.0'', ''numpy==1.26''])"
    by (simp add: analyze_dependencies_def analyzers_def analyze_python_dependencies_def
          catch_all_def python_dependencies_def path_exists_def read_text_def pinned_tree_def
          py_strip_def py_isspace_def)
  have l: "detect_primary_language pinned_tree = Returned ''python''"
    by (simp add: detect_primary_language_def language_counts_def language_patterns_def
          pinned_tree_def)
  have b: "detect_build_system pinned_tree ''python'' = ''pip''"
    by (simp add: detect_build_system_def build_systems_def path_exists_def pinned_tree_def)
  show ?thesis
    by (simp add: modify_build_instructions_def reraise_def l b a relax_def retry_commands_def
          py_replace.simps)
qed

lemma pinned_modify_retry:
  "modify_build_instructions (stub_runtime c) pinned_tree =
     Returned (retry_python [''requests>=2.0'', ''flask>=1.0'', ''numpy>=1.26''])"
  by (simp add: pinned_modify retry_python_def)

lemma pinned_retry:
  "c \<noteq> 0 \<Longrightarrow>
   attempt_build (stub_runtime c) ''/repo'' (retry_python deps)
      \<lparr>tree = pinned_tree, events = [Recover]\<rparr> =
     (Raised (BuildError ''Failed to setup environment: ''
                (Some (CalledProcessError [''python'', ''-m'', ''venv'', ''/repo/.venv''] c))),
      \<lparr>tree = pinned_tree,
       events = [Recover, Run [''python'', ''-m'', ''venv'', ''/repo/.venv''] None]\<rparr>)"
  by (simp add: run_defs pinned_tree_def retry_python_def)

lemma venv_clean:
  "clean_build_artifacts rt \<lparr>tree = venv_tree, events = [Recover]\<rparr> =
     \<lparr>tree = venv_tree, events = [Recover]\<rparr>"
  by (simp add: clean_defs path_exists_def venv_tree_def)

lemma venv_modify:
  "modify_build_instructions (stub_runtime c) venv_tree = Returned (retry_python [''requests>=2.0''])"
proof -
  have a: "analyze_dependencies (stub_runtime c) venv_tree ''python'' =
     Returned (Some [''requests==2.0''])"
    by (simp add: analyze_dependencies_def analyzers_def analyze_python_dependencies_def
          catch_all_def python_dependencies_def path_exists_def read_text_def venv_tree_def
          py_strip_def py_isspace_def)
  have l: "detect_primary_language venv_tree = Returned ''python''"
    by (simp add: detect_primary_language_def language_counts_def language_patterns_def
          venv_tree_def)
  have b: "detect_build_system venv_tree ''python'' = ''pip''"
    by (simp add: detect_build_system_def build_systems_def path_exists_def venv_tree_def)
  show ?thesis
    by (simp add: modify_build_instructions_def reraise_def l b a relax_def retry_commands_def
          py_replace.simps retry_python_def)
qed

lemma venv_retry:
  "c \<noteq> 0 \<Longrightarrow>
   attempt_build (stub_runtime c) ''/repo'' (retry_python deps)
      \<lparr>tree = venv_tree, events = [Recover]\<rparr> =
     (Returned (Some False),
      \<lparr>tree = venv_tree,
       events = [Recover, Dispatch ''python'',
                 Run [''python'', ''-m'', ''venv'', ''/repo/.venv''] None]\<rparr>)"
  by (simp add: run_defs venv_tree_def retry_python_def)

lemma java_clean:
  "clean_build_artifacts rt \<lparr>tree = java_tree, events = [Recover]\<rparr> =
     \<lparr>tree = java_tree, events = [Recover]\<rparr>"
  by (simp add: clean_defs path_exists_def java_tree_def)

lemma java_modify:
  "modify_build_instructions rt java_tree =
     Raised (BuildError ''Could not modify build instructions: '' (Some TypeError))"
proof -
  have l: "detect_primary_language java_tree = Returned ''java''"
    by (simp add: detect_primary_language_def language_counts_def language_patterns_def
          java_tree_def)
  show ?thesis
    by (simp add: modify_build_instructions_def reraise_def l analyze_dependencies_def
          analyzers_def analyze_java_dependencies_def relax_def)
qed

text \<open>
  Three failing retries on a host where every command exits with status 1: a Java checkout
  (the instructions cannot be synthesized), \<open>pinned_tree\<close> (the environment setup of the
  retry raises) and \<open>venv_tree\<close> (the handler of the retry reports failure).
\<close>

theorem handle_build_failure_bare_result_witness:
  "modify_build_instructions (stub_runtime 1)
     (tree (clean_build_artifacts (stub_runtime 1)
        (\<lparr>tree = java_tree, events = []\<rparr>\<lparr>events := events \<lparr>tree = java_tree, events = []\<rparr> @ [Recover]\<rparr>)))
     = Raised (BuildError ''Could not modify build instructions: '' (Some TypeError)) \<and>
   fst (handle_build_failure (stub_runtime 1) ''/repo'' OSError \<lparr>tree = java_tree, events = []\<rparr>)
     = Returned (Some False) \<and>
   execute_build (stub_runtime 1) ''/repo''
     (retry_python [''requests>=2.0'', ''flask>=1.0'', ''numpy>=1.26''])
     (clean_build_artifacts (stub_runtime 1)
        (\<lparr>tree = pinned_tree, events = []\<rparr>\<lparr>events := events \<lparr>tree = pinned_tree, events = []\<rparr> @ [Recover]\<rparr>))
     = (Raised (BuildError ''Failed to setup environment: ''
                  (Some (CalledProcessError [''python'', ''-m'', ''venv'', ''/repo/.venv''] 1))),
        \<lparr>tree = pinned_tree,
         events = [Recover, Run [''python'', ''-m'', ''venv'', ''/repo/.venv''] None]\<rparr>) \<and>
   handle_build_failure (stub_runtime 1) ''/repo'' OSError \<lparr>tree = pinned_tree, events = []\<rparr>
     = (Returned (Some False),
        \<lparr>tree = pinned_tree,
         events = [Recover, Run [''python'', ''-m'', ''venv'', ''/repo/.venv''] None]\<rparr>) \<and>
   execute_build (stub_runtime 1) ''/repo'' (retry_python [''requests>=2.0''])
     (clean_build_artifacts (stub_runtime 1)
        (\<lparr>tree = venv_tree, events = []\<rparr>\<lparr>events := events \<lparr>tree = venv_tree, events = []\<rparr> @ [Recover]\<rparr>))
     = (Returned (Some False),
        \<lparr>tree = venv_tree,
         events = [Recover, Dispatch ''python'',
                   Run [''python'', ''-m'', ''venv'', ''/repo/.venv''] None]\<rparr>) \<and>
   handle_build_failure (stub_runtime 1) ''/repo'' OSError \<lparr>tree = venv_tree, events = []\<rparr>
     = (Returned (Some False),
        \<lparr>tree = venv_tree,
         events = [Recover, Dispatch ''python'',
                   Run [''python'', ''-m'', ''venv'', ''/repo/.venv''] None]\<rparr>)"
proof -
  let ?rt = "stub_runtime 1"
  have j: "modify_build_instructions ?rt
     (tree (clean_build_artifacts ?rt
        (\<lparr>tree = java_tree, events = []\<rparr>\<lparr>events := events \<lparr>tree = java_tree, events = []\<rparr> @ [Recover]\<rparr>)))
     = Raised (BuildError ''Could not modify build instructions: '' (Some TypeError))"
    by (simp add: java_clean java_modify)
  have p: "modify_build_instructions ?rt
     (tree (clean_build_artifacts ?rt
        (\<lparr>tree = pinned_tree, events = []\<rparr>\<lparr>events := events \<lparr>tree = pinned_tree, events = []\<rparr> @ [Recover]\<rparr>)))
     = Returned (retry_python [''requests>=2.0'', ''flask>=1.0'', ''numpy>=1.26''])"
    "execute_build ?rt ''/repo'' (retry_python [''requests>=2.0'', ''flask>=1.0'', ''numpy>=1.26''])
     (clean_build_artifacts ?rt
        (\<lparr>tree = pinned_tree, events = []\<rparr>\<lparr>events := events \<lparr>tree = pinned_tree, events = []\<rparr> @ [Recover]\<rparr>))
     = (Raised (BuildError ''Failed to setup environment: ''
                  (Some (CalledProcessError [''python'', ''-m'', ''venv'', ''/repo/.venv''] 1))),
        \<lparr>tree = pinned_tree,
         events = [Recover, Run [''python'', ''-m'', ''venv'', ''/repo/.venv''] None]\<rparr>)"
    by (simp_all add: pinned_clean pinned_modify_retry execute_build_is_attempt pinned_retry)
  have v: "modify_build_instructions ?rt
     (tree (clean_build_artifacts ?rt
        (\<lparr>tree = venv_tree, events = []\<rparr>\<lparr>events := events \<lparr>tree = venv_tree, events = []\<rparr> @ [Recover]\<rparr>)))
     = Returned (retry_python [''requests>=2.0''])"
    "execute_build ?rt ''/repo'' (retry_python [''requests>=2.0''])
     (clean_build_artifacts ?rt
        (\<lparr>tree = venv_tree, events = []\<rparr>\<lparr>events := events \<lparr>tree = venv_tree, events = []\<rparr> @ [Recover]\<rparr>))
     = (Returned (Some False),
        \<lparr>tree = venv_tree,
         events = [Recover, Dispatch ''python'',
                   Run [''python'', ''-m'', ''venv'', ''/repo/.venv''] None]\<rparr>)"
    by (simp_all add: venv_clean venv_modify execute_build_is_attempt venv_retry)
  note t = handle_build_failure_bare_result [of ?rt "''/repo''" OSError]
  from t [of "\<lparr>tree = java_tree, events = []\<rparr>"] j
  have 1: "fst (handle_build_failure ?rt ''/repo'' OSError \<lparr>tree = java_tree, events = []\<rparr>)
     = Returned (Some False)"
    by blast
  from t [of "\<lparr>tree = pinned_tree, events = []\<rparr>"] p
  have 2: "handle_build_failure ?rt ''/repo'' OSError \<lparr>tree = pinned_tree, events = []\<rparr>
     = (Returned (Some False),
        \<lparr>tree = pinned_tree,
         events = [Recover, Run [''python'', ''-m'', ''venv'', ''/repo/.venv''] None]\<rparr>)"
    by blast
  from t [of "\<lparr>tree = venv_tree, events = []\<rparr>"] v
  have 3: "handle_build_failure ?rt ''/repo'' OSError \<lparr>tree = venv_tree, events = []\<rparr>
     = (Returned (Some False),
        \<lparr>tree = venv_tree,
         events = [Recover, Dispatch ''python'',
                   Run [''python'', ''-m'', ''venv'', ''/repo/.venv''] None]\<rparr>)"
    by blast
  from j p(2) v(2) 1 2 3 show ?thesis
    by (intro conjI)
qed

text \<open>
  The claim as the specification states it fails: two runs that differ in the original
  failure (its command and exit status) and in the exit status of the command that fails
  in the retry return the same value \<open>False\<close> and the same state; the value carries neither
  reason.
\<close>

theorem handle_build_failure_reasons_counterexample:
  "handle_build_failure (stub_runtime 1) ''/repo'' (CalledProcessError [''make''] 2)
     \<lparr>tree = pinned_tree, events = []\<rparr> =
     (Returned (Some False),
      \<lparr>tree = pinned_tree,
       events = [Recover, Run [''python'', ''-m'', ''venv'', ''/repo/.venv''] None]\<rparr>) \<and>
   handle_build_failure (stub_runtime 7) ''/repo'' (CalledProcessError [''pip'', ''install''] 1)
     \<lparr>tree = pinned_tree, events = []\<rparr> =
     (Returned (Some False),
      \<lparr>tree = pinned_tree,
       events = [Recover, Run [''python'', ''-m'', ''venv'', ''/repo/.venv''] None]\<rparr>)"
  by (simp add: handle_build_failure.simps pinned_clean pinned_modify_retry execute_build_is_attempt
        pinned_retry)

section \<open>A Go repository\<close>




















end
